theory Spec2Isabelle
  imports Complex_Main "HOL-Library.Log_Nat"
begin

section \<open>Python values, errors and console output\<close>

text \<open>
  The argument of \<open>ajustar_intensidad\<close> is annotated \<open>int\<close>, but Python does not enforce
  the annotation: the method receives whatever object the caller passes. \<open>pyval\<close> has the
  built-in values a caller may pass and, as \<open>PyObjeto\<close>, any other object that defines no
  order against numbers. The flag of \<open>PyObjeto\<close> is the answer that \<open>isinstance(v, int)\<close>
  gives for the object: \<open>False\<close> for an ordinary object, \<open>True\<close> for one whose \<open>__class__\<close>
  claims to be \<open>int\<close>, as \<open>unittest.mock.Mock(spec=int)\<close> does. A Python \<open>float\<close> is
  modelled by the real number it stands for (no NaN, no infinities).
\<close>

datatype pyval = PyInt int | PyBool bool | PyFloat real | PyStr string | PyNone | PyObjeto bool

datatype py_error = TypeError | ValueError | OverflowError

text \<open>\<open>isinstance(v, int)\<close>: \<open>bool\<close> is a subclass of \<open>int\<close> in Python.\<close>

fun isinstance_int :: "pyval \<Rightarrow> bool" where
  "isinstance_int (PyInt i) = True"
| "isinstance_int (PyBool b) = True"
| "isinstance_int (PyFloat x) = False"
| "isinstance_int (PyStr s) = False"
| "isinstance_int PyNone = False"
| "isinstance_int (PyObjeto es_int) = es_int"

text \<open>The number a numeric Python value stands for (\<open>True\<close> is 1, \<open>False\<close> is 0).\<close>

fun py_num :: "pyval \<Rightarrow> real option" where
  "py_num (PyInt i) = Some (of_int i)"
| "py_num (PyBool b) = Some (if b then 1 else 0)"
| "py_num (PyFloat x) = Some x"
| "py_num (PyStr s) = None"
| "py_num PyNone = None"
| "py_num (PyObjeto es_int) = None"

text \<open>
  \<open>i <= v\<close> and \<open>v <= i\<close> for an \<open>int\<close> literal \<open>i\<close>: numbers compare by value, any
  other operand raises \<open>TypeError\<close>.
\<close>

definition int_le_py :: "int \<Rightarrow> pyval \<Rightarrow> py_error + bool" where
  "int_le_py i v = (case py_num v of None \<Rightarrow> Inl TypeError | Some x \<Rightarrow> Inr (of_int i \<le> x))"

definition py_le_int :: "pyval \<Rightarrow> int \<Rightarrow> py_error + bool" where
  "py_le_int v i = (case py_num v of None \<Rightarrow> Inl TypeError | Some x \<Rightarrow> Inr (x \<le> of_int i))"

text \<open>The chained comparison \<open>lo <= v <= hi\<close>, that is \<open>lo <= v and v <= hi\<close>.\<close>

definition py_between :: "int \<Rightarrow> pyval \<Rightarrow> int \<Rightarrow> py_error + bool" where
  "py_between lo v hi =
     (case int_le_py lo v of
        Inl e \<Rightarrow> Inl e
      | Inr False \<Rightarrow> Inr False
      | Inr True \<Rightarrow> py_le_int v hi)"

text \<open>
  Python's \<open>==\<close> on the modelled values: numbers by value, strings by content, any
  other object only with itself.
\<close>

definition py_eq :: "pyval \<Rightarrow> pyval \<Rightarrow> bool" where
  "py_eq a b =
     (case (py_num a, py_num b) of
        (Some x, Some y) \<Rightarrow> x = y
      | (None, None) \<Rightarrow> a = b
      | _ \<Rightarrow> False)"

text \<open>
  Every \<open>print\<close> of the source is one constructor of \<open>salida\<close>, carrying the values the
  f-string interpolates; the console is the list of lines printed so far.
\<close>

datatype salida =
    InfoEncendido string
  | InfoApagado string
  | DatosBase string string string
  | DatosTemperatura real
  | DatosHumedad real
  | DatosIntensidad pyval
  | Advertencia string
  | ErrorEntero
  | ErrorRango
  | InfoIntensidad string pyval
  | InicioMonitoreo
  | CabeceraCiclo int
  | FinMonitoreo

section \<open>The device classes\<close>

record DispositivoIoT =
  id_dispositivo :: string
  estado :: bool

record SensorTemperatura = DispositivoIoT +
  temperatura :: real

record SensorHumedad = DispositivoIoT +
  humedad :: real

record ActuadorLuz = DispositivoIoT +
  intensidad :: pyval

text \<open>The constructors (\<open>__init__\<close> of each class, the subclass calling the base first).\<close>

definition DispositivoIoT_init :: "string \<Rightarrow> DispositivoIoT" where
  "DispositivoIoT_init ident = \<lparr>id_dispositivo = ident, estado = False\<rparr>"

definition SensorTemperatura_init :: "string \<Rightarrow> SensorTemperatura" where
  "SensorTemperatura_init ident =
     DispositivoIoT.extend (DispositivoIoT_init ident) (SensorTemperatura.fields 0)"

definition SensorHumedad_init :: "string \<Rightarrow> SensorHumedad" where
  "SensorHumedad_init ident =
     DispositivoIoT.extend (DispositivoIoT_init ident) (SensorHumedad.fields 0)"

definition ActuadorLuz_init :: "string \<Rightarrow> ActuadorLuz" where
  "ActuadorLuz_init ident =
     DispositivoIoT.extend (DispositivoIoT_init ident) (ActuadorLuz.fields (PyInt 0))"

text \<open>
  \<open>encender\<close> and \<open>apagar\<close> are inherited: they work on any record that extends
  \<open>DispositivoIoT\<close>. Each method returns the updated object and the lines it printed.
\<close>

definition encender :: "'a DispositivoIoT_scheme \<Rightarrow> 'a DispositivoIoT_scheme \<times> salida list" where
  "encender d = (d\<lparr>estado := True\<rparr>, [InfoEncendido (id_dispositivo d)])"

definition apagar :: "'a DispositivoIoT_scheme \<Rightarrow> 'a DispositivoIoT_scheme \<times> salida list" where
  "apagar d = (d\<lparr>estado := False\<rparr>, [InfoApagado (id_dispositivo d)])"

text \<open>
  The base \<open>mostrar_datos\<close>; \<open>cls\<close> is \<open>self.__class__.__name__\<close>, the name of the
  object's own class.
\<close>

definition DispositivoIoT_mostrar_datos ::
  "string \<Rightarrow> 'a DispositivoIoT_scheme \<Rightarrow> 'a DispositivoIoT_scheme \<times> salida list" where
  "DispositivoIoT_mostrar_datos cls d =
     (let estado_str = (if estado d then ''Encendido'' else ''Apagado'')
      in (d, [DatosBase cls (id_dispositivo d) estado_str]))"

section \<open>Binary floating point\<close>

text \<open>
  Python computes \<open>float\<close> arithmetic in IEEE 754 binary64: the result of an operation is
  the exact result rounded to the nearest number with a significand of 53 bits, a tie
  going to the even significand. \<open>fl\<close> is that rounding. \<open>exponente x\<close> is the \<open>e\<close> with
  \<open>2 ** e <= x < 2 ** (e + 1)\<close>, for a positive \<open>x\<close>. The exponent is not bounded: overflow
  and subnormal numbers are not modelled, and the numbers this program computes, between
  \<open>2 ** -53\<close> and 100, are far from both.
\<close>

definition round_half_even :: "real \<Rightarrow> int" where
  "round_half_even y =
     (let f = \<lfloor>y\<rfloor>; d = y - of_int f
      in if d < 1 / 2 then f
         else if 1 / 2 < d then f + 1
         else if even f then f else f + 1)"

definition exponente :: "real \<Rightarrow> int" where
  "exponente x =
     (if 1 \<le> x then bitlen \<lfloor>x\<rfloor> - 1
      else (let j = bitlen \<lfloor>1 / x\<rfloor>
            in if 1 / x = 2 ^ nat (j - 1) then 1 - j else - j))"

definition fl :: "real \<Rightarrow> real" where
  "fl x =
     (if x = 0 then 0
      else (let s = 52 - exponente \<bar>x\<bar>
            in sgn x * of_int (round_half_even (\<bar>x\<bar> * 2 powi s)) / 2 powi s))"

section \<open>The random source\<close>

text \<open>
  The module \<open>random\<close> is a library, not part of this program. Its generator is taken as
  a parameter: the sequence of the values that successive calls of \<open>random.random()\<close>
  will return, each of them a binary64 number in \<open>[0, 1)\<close> by the library's contract. A
  draw takes the head of the sequence. \<open>random.uniform(a, b)\<close> is
  \<open>a + (b - a) * random()\<close>, as the library defines it, each of the three operations
  rounded.
\<close>

type_synonym rng = "nat \<Rightarrow> real"

definition random_py :: "rng \<Rightarrow> real \<times> rng" where
  "random_py g = (g 0, \<lambda>n. g (Suc n))"

definition uniform :: "real \<Rightarrow> real \<Rightarrow> rng \<Rightarrow> real \<times> rng" where
  "uniform a b g = (let (u, g') = random_py g in (fl (a + fl (fl (b - a) * u)), g'))"

text \<open>
  \<open>round(x, ndigits)\<close> of a \<open>float\<close>: the exact value of \<open>x\<close> is rounded to the nearest
  multiple of \<open>10 ** -ndigits\<close>, a tie going to the even multiple, and the result is the
  binary64 number nearest to that decimal.
\<close>

definition py_round :: "real \<Rightarrow> nat \<Rightarrow> real" where
  "py_round x ndigits = fl (of_int (round_half_even (x * 10 ^ ndigits)) / 10 ^ ndigits)"

section \<open>Sensors and the light actuator\<close>

text \<open>A reading returns the value read, the updated sensor and the generator left.\<close>

definition leer_temperatura :: "SensorTemperatura \<Rightarrow> rng \<Rightarrow> real \<times> SensorTemperatura \<times> rng" where
  "leer_temperatura s g =
     (if estado s then
        (let (x, g') = uniform 20 40 g;
             s' = s\<lparr>temperatura := py_round x 2\<rparr>
         in (temperatura s', s', g'))
      else
        (let s' = s\<lparr>temperatura := 0\<rparr>
         in (temperatura s', s', g)))"

definition leer_humedad :: "SensorHumedad \<Rightarrow> rng \<Rightarrow> real \<times> SensorHumedad \<times> rng" where
  "leer_humedad s g =
     (if estado s then
        (let (x, g') = uniform 30 90 g;
             s' = s\<lparr>humedad := py_round x 2\<rparr>
         in (humedad s', s', g'))
      else
        (let s' = s\<lparr>humedad := 0\<rparr>
         in (humedad s', s', g)))"

definition SensorTemperatura_mostrar_datos :: "SensorTemperatura \<Rightarrow> SensorTemperatura \<times> salida list" where
  "SensorTemperatura_mostrar_datos s =
     (let (s', out) = DispositivoIoT_mostrar_datos ''SensorTemperatura'' s
      in (s', out @ [DatosTemperatura (temperatura s')]))"

definition SensorHumedad_mostrar_datos :: "SensorHumedad \<Rightarrow> SensorHumedad \<times> salida list" where
  "SensorHumedad_mostrar_datos s =
     (let (s', out) = DispositivoIoT_mostrar_datos ''SensorHumedad'' s
      in (s', out @ [DatosHumedad (humedad s')]))"

definition ActuadorLuz_mostrar_datos :: "ActuadorLuz \<Rightarrow> ActuadorLuz \<times> salida list" where
  "ActuadorLuz_mostrar_datos a =
     (let (a', out) = DispositivoIoT_mostrar_datos ''ActuadorLuz'' a
      in (a', out @ [DatosIntensidad (intensidad a')]))"

text \<open>
  \<open>ajustar_intensidad\<close> stores the object it was given (\<open>self.__intensidad = valor\<close>).
  The result is \<open>Inr\<close> with the actuator and the lines printed when the call returns,
  and \<open>Inl\<close> with the exception, the actuator and the lines printed up to then when the
  call raises: the object outlives the exception.
\<close>

definition ajustar_intensidad ::
  "ActuadorLuz \<Rightarrow> pyval \<Rightarrow> (py_error \<times> ActuadorLuz \<times> salida list) + (ActuadorLuz \<times> salida list)" where
  "ajustar_intensidad a valor =
     (if \<not> estado a then Inr (a, [Advertencia (id_dispositivo a)])
      else if \<not> isinstance_int valor then Inr (a, [ErrorEntero])
      else (case py_between 0 valor 100 of
              Inl e \<Rightarrow> Inl (e, a, [])
            | Inr True \<Rightarrow> Inr (a\<lparr>intensidad := valor\<rparr>, [InfoIntensidad (id_dispositivo a) valor])
            | Inr False \<Rightarrow> Inr (a, [ErrorRango])))"

section \<open>The heterogeneous collection\<close>

text \<open>
  An object of the program is of one of the four classes. The collection handed to the
  monitoring loop is a list of references, and the objects live in a store, so that a
  device listed twice is one object.
\<close>

datatype dispositivo =
    Generico DispositivoIoT
  | Temp SensorTemperatura
  | Hum SensorHumedad
  | Luz ActuadorLuz

type_synonym ref = nat

type_synonym heap = "ref \<Rightarrow> dispositivo"

text \<open>Dynamic dispatch of \<open>d.mostrar_datos()\<close>.\<close>

fun mostrar_datos :: "dispositivo \<Rightarrow> dispositivo \<times> salida list" where
  "mostrar_datos (Generico d) =
     (let (d', out) = DispositivoIoT_mostrar_datos ''DispositivoIoT'' d in (Generico d', out))"
| "mostrar_datos (Temp s) =
     (let (s', out) = SensorTemperatura_mostrar_datos s in (Temp s', out))"
| "mostrar_datos (Hum s) =
     (let (s', out) = SensorHumedad_mostrar_datos s in (Hum s', out))"
| "mostrar_datos (Luz a) =
     (let (a', out) = ActuadorLuz_mostrar_datos a in (Luz a', out))"

section \<open>The monitoring loop\<close>

text \<open>First loop of a cycle: every temperature or humidity sensor takes a reading.\<close>

fun fase_lectura :: "ref list \<Rightarrow> heap \<Rightarrow> rng \<Rightarrow> heap \<times> rng" where
  "fase_lectura [] h g = (h, g)"
| "fase_lectura (r # rs) h g =
     (case h r of
        Temp s \<Rightarrow> (let (t, s', g') = leer_temperatura s g in fase_lectura rs (h(r := Temp s')) g')
      | Hum s \<Rightarrow> (let (t, s', g') = leer_humedad s g in fase_lectura rs (h(r := Hum s')) g')
      | _ \<Rightarrow> fase_lectura rs h g)"

text \<open>\<open>[d.temperatura for d in dispositivos if isinstance(d, SensorTemperatura)]\<close>\<close>

definition temperaturas :: "ref list \<Rightarrow> heap \<Rightarrow> real list" where
  "temperaturas ds h =
     List.map_filter (\<lambda>r. case h r of Temp s \<Rightarrow> Some (temperatura s) | _ \<Rightarrow> None) ds"

text \<open>\<open>any(t > umbral_temp for t in temperaturas)\<close>\<close>

definition alarma_calor :: "real list \<Rightarrow> real \<Rightarrow> bool" where
  "alarma_calor ts umbral_temp = list_ex (\<lambda>t. t > umbral_temp) ts"

text \<open>
  Second loop: every light actuator is adjusted. An exception ends the loop and leaves
  the store and the printed lines as they are at that point.
\<close>

fun fase_actuacion ::
  "ref list \<Rightarrow> bool \<Rightarrow> heap \<Rightarrow> (py_error \<times> heap \<times> salida list) + (heap \<times> salida list)" where
  "fase_actuacion [] alarma h = Inr (h, [])"
| "fase_actuacion (r # rs) alarma h =
     (case h r of
        Luz a \<Rightarrow>
          (case ajustar_intensidad a (PyInt (if alarma then 80 else 20)) of
             Inl (e, a', out) \<Rightarrow> Inl (e, h(r := Luz a'), out)
           | Inr (a', out) \<Rightarrow>
               (case fase_actuacion rs alarma (h(r := Luz a')) of
                  Inl (e, h', out') \<Rightarrow> Inl (e, h', out @ out')
                | Inr (h', out') \<Rightarrow> Inr (h', out @ out')))
      | _ \<Rightarrow> fase_actuacion rs alarma h)"

text \<open>Third loop: every device shows its data, in the order of the list.\<close>

fun fase_reporte :: "ref list \<Rightarrow> heap \<Rightarrow> heap \<times> salida list" where
  "fase_reporte [] h = (h, [])"
| "fase_reporte (r # rs) h =
     (let (d', out) = mostrar_datos (h r);
          (h', out') = fase_reporte rs (h(r := d'))
      in (h', out @ out'))"

text \<open>
  The body of the \<open>for ciclo in range(1, ciclos + 1)\<close> loop up to the pause: the cycle's
  header line and the three loops over the devices.
\<close>

definition ciclo_monitoreo ::
  "ref list \<Rightarrow> real \<Rightarrow> int \<Rightarrow> heap \<Rightarrow> rng \<Rightarrow>
     (py_error \<times> heap \<times> rng \<times> salida list) + (heap \<times> rng \<times> salida list)" where
  "ciclo_monitoreo dispositivos umbral_temp ciclo h g =
     (let (h1, g1) = fase_lectura dispositivos h g;
          alarma = alarma_calor (temperaturas dispositivos h1) umbral_temp
      in case fase_actuacion dispositivos alarma h1 of
           Inl (e, h2, out2) \<Rightarrow> Inl (e, h2, g1, [CabeceraCiclo ciclo] @ out2)
         | Inr (h2, out2) \<Rightarrow>
             (let (h3, out3) = fase_reporte dispositivos h2
              in Inr (h3, g1, [CabeceraCiclo ciclo] @ out2 @ out3)))"

text \<open>
  The \<open>for\<close> loop over the cycle numbers still to run. The module \<open>time\<close> is a library:
  \<open>sleep\<close> is a parameter that tells, for a pause, the exception \<open>time.sleep\<close> raises for
  it, if any (\<open>ValueError\<close> for a negative pause); it has no other effect on the state.
\<close>

fun bucle_ciclos ::
  "(real \<Rightarrow> py_error option) \<Rightarrow> int list \<Rightarrow> ref list \<Rightarrow> real \<Rightarrow> real \<Rightarrow> heap \<Rightarrow> rng \<Rightarrow>
     (py_error \<times> heap \<times> rng \<times> salida list) + (heap \<times> rng \<times> salida list)" where
  "bucle_ciclos sleep [] dispositivos pausa_seg umbral_temp h g = Inr (h, g, [])"
| "bucle_ciclos sleep (ciclo # resto) dispositivos pausa_seg umbral_temp h g =
     (case ciclo_monitoreo dispositivos umbral_temp ciclo h g of
        Inl (e, h', g', out) \<Rightarrow> Inl (e, h', g', out)
      | Inr (h', g', out) \<Rightarrow>
          (case sleep pausa_seg of
             Some e \<Rightarrow> Inl (e, h', g', out)
           | None \<Rightarrow>
               (case bucle_ciclos sleep resto dispositivos pausa_seg umbral_temp h' g' of
                  Inl (e, h'', g'', out') \<Rightarrow> Inl (e, h'', g'', out @ out')
                | Inr (h'', g'', out') \<Rightarrow> Inr (h'', g'', out @ out'))))"

definition simulacion_monitoreo ::
  "(real \<Rightarrow> py_error option) \<Rightarrow> ref list \<Rightarrow> int \<Rightarrow> real \<Rightarrow> real \<Rightarrow> heap \<Rightarrow> rng \<Rightarrow>
     (py_error \<times> heap \<times> rng \<times> salida list) + (heap \<times> rng \<times> salida list)" where
  "simulacion_monitoreo sleep dispositivos ciclos pausa_seg umbral_temp h g =
     (case bucle_ciclos sleep [1..ciclos] dispositivos pausa_seg umbral_temp h g of
        Inl (e, h', g', out) \<Rightarrow> Inl (e, h', g', [InicioMonitoreo] @ out)
      | Inr (h', g', out) \<Rightarrow> Inr (h', g', [InicioMonitoreo] @ out @ [FinMonitoreo]))"

text \<open>The defaults of the keyword arguments: 5 cycles, 1.5 seconds, 30.0 degrees.\<close>

definition simulacion_monitoreo_defecto ::
  "(real \<Rightarrow> py_error option) \<Rightarrow> ref list \<Rightarrow> heap \<Rightarrow> rng \<Rightarrow>
     (py_error \<times> heap \<times> rng \<times> salida list) + (heap \<times> rng \<times> salida list)" where
  "simulacion_monitoreo_defecto sleep dispositivos h g =
     simulacion_monitoreo sleep dispositivos 5 (3 / 2) 30 h g"

section \<open>The devices of the entry point\<close>

text \<open>
  The script creates two temperature sensors, a humidity sensor and two lights, puts
  them in a list in this order and switches each of them on. \<open>main_heap\<close> is the store
  at that point, the five objects at the addresses 0 to 4; every other address holds a
  plain device that no list of the script refers to.
\<close>

definition main_dispositivos :: "ref list" where
  "main_dispositivos = [0, 1, 2, 3, 4]"

definition main_heap :: heap where
  "main_heap =
     (\<lambda>r. Generico (DispositivoIoT_init []))
       (0 := Temp (fst (encender (SensorTemperatura_init ''TempSensor_01''))),
        1 := Temp (fst (encender (SensorTemperatura_init ''TempSensor_02''))),
        2 := Hum (fst (encender (SensorHumedad_init ''HumSensor_01''))),
        3 := Luz (fst (encender (ActuadorLuz_init ''Luz_Sala''))),
        4 := Luz (fst (encender (ActuadorLuz_init ''Luz_Cocina''))))"

section \<open>Rounding to binary64 and the random draw\<close>

lemma round_half_even_bounds:
  "of_int (round_half_even y) \<le> y + 1 / 2" "y - 1 / 2 \<le> of_int (round_half_even y)"
  unfolding round_half_even_def Let_def by (auto; linarith)+

lemma round_half_even_ge_int:
  assumes "of_int k \<le> y"
  shows "k \<le> round_half_even y"
proof -
  have "k \<le> \<lfloor>y\<rfloor>" using assms by (simp add: le_floor_iff)
  then show ?thesis unfolding round_half_even_def Let_def by auto
qed

lemma round_half_even_le_int:
  assumes "y \<le> of_int k"
  shows "round_half_even y \<le> k"
proof (cases "y = of_int k")
  case True
  then show ?thesis unfolding round_half_even_def Let_def by simp
next
  case False
  with assms have "y < of_int k" by simp
  then have "\<lfloor>y\<rfloor> < k" by (simp add: floor_less_iff)
  then show ?thesis unfolding round_half_even_def Let_def by auto
qed

lemma bitlen_floor_bounds:
  fixes y :: real
  assumes "1 \<le> y"
  shows "1 \<le> bitlen \<lfloor>y\<rfloor>" "2 ^ nat (bitlen \<lfloor>y\<rfloor> - 1) \<le> y" "y < 2 ^ nat (bitlen \<lfloor>y\<rfloor>)"
proof -
  have pos: "0 < \<lfloor>y\<rfloor>" using assms by linarith
  from bitlen_bounds [OF pos]
  have lo: "2 ^ nat (bitlen \<lfloor>y\<rfloor> - 1) \<le> \<lfloor>y\<rfloor>" and hi: "\<lfloor>y\<rfloor> < 2 ^ nat (bitlen \<lfloor>y\<rfloor>)" by simp_all
  show "1 \<le> bitlen \<lfloor>y\<rfloor>" using pos bitlen_eq_zero_iff [of "\<lfloor>y\<rfloor>"] bitlen_nonneg [of "\<lfloor>y\<rfloor>"] by linarith
  have "(2::real) ^ nat (bitlen \<lfloor>y\<rfloor> - 1) = of_int (2 ^ nat (bitlen \<lfloor>y\<rfloor> - 1))" by simp
  also have "\<dots> \<le> of_int \<lfloor>y\<rfloor>" using lo by (simp only: of_int_le_iff)
  also have "\<dots> \<le> y" by simp
  finally show "2 ^ nat (bitlen \<lfloor>y\<rfloor> - 1) \<le> y" .
  have "\<lfloor>y\<rfloor> + 1 \<le> 2 ^ nat (bitlen \<lfloor>y\<rfloor>)" using hi by simp
  then have "of_int (\<lfloor>y\<rfloor> + 1) \<le> (of_int (2 ^ nat (bitlen \<lfloor>y\<rfloor>)) :: real)"
    by (simp only: of_int_le_iff)
  then have up: "of_int \<lfloor>y\<rfloor> + 1 \<le> (2::real) ^ nat (bitlen \<lfloor>y\<rfloor>)" by simp
  have "y < of_int \<lfloor>y\<rfloor> + 1" by linarith
  with up show "y < 2 ^ nat (bitlen \<lfloor>y\<rfloor>)" by linarith
qed

lemma exponente_bounds:
  assumes "0 < x"
  shows "2 powi exponente x \<le> x" "x < 2 powi (exponente x + 1)"
proof -
  have "2 powi exponente x \<le> x \<and> x < 2 powi (exponente x + 1)"
  proof (cases "1 \<le> x")
    case True
    note b = bitlen_floor_bounds [OF True]
    have e: "exponente x = bitlen \<lfloor>x\<rfloor> - 1" using True by (simp add: exponente_def)
    have "(2::real) powi (bitlen \<lfloor>x\<rfloor> - 1) = 2 ^ nat (bitlen \<lfloor>x\<rfloor> - 1)"
      using b(1) by (simp add: power_int_def)
    moreover have "(2::real) powi (bitlen \<lfloor>x\<rfloor> - 1 + 1) = 2 ^ nat (bitlen \<lfloor>x\<rfloor>)"
      using b(1) by (simp add: power_int_def)
    ultimately show ?thesis using b e by simp
  next
    case False
    define y where "y = 1 / x"
    have y1: "1 < y" using False assms by (simp add: y_def)
    then have "1 \<le> y" by simp
    note b = bitlen_floor_bounds [OF this]
    define j where "j = bitlen \<lfloor>y\<rfloor>"
    have x: "x = 1 / y" using assms by (simp add: y_def)
    have ypos: "0 < y" using y1 by simp
    show ?thesis
    proof (cases "y = 2 ^ nat (j - 1)")
      case True
      then have e: "exponente x = 1 - j" using False by (simp add: exponente_def y_def j_def Let_def)
      have "j \<noteq> 1" using True y1 by auto
      then have j2: "2 \<le> j" using b(1) by (simp add: j_def)
      have p1: "(2::real) powi (1 - j) = 1 / 2 ^ nat (j - 1)"
        using j2 by (simp add: power_int_def power_inverse field_simps) 
      have "(2::real) powi (1 - j + 1) = 2 powi (1 - j) * 2"
        by (rule power_int_add_1) simp
      then have p2: "(2::real) powi (exponente x + 1) = 2 * x" using e p1 True x by simp
      have "2 powi exponente x = x" using e p1 True x by simp
      then show ?thesis using p2 assms by simp
    next
      case neq: False
      then have e: "exponente x = - j" using False by (simp add: exponente_def y_def j_def Let_def)
      have j1: "1 \<le> j" using b(1) by (simp add: j_def)
      have lo: "2 ^ nat (j - 1) < y" using b(2) neq by (simp add: j_def)
      have hi: "y < 2 ^ nat j" using b(3) by (simp add: j_def)
      have p0: "(2::real) powi (- j) = 1 / 2 ^ nat j"
        using j1 by (simp add: power_int_def power_inverse field_simps)
      have p1: "(2::real) powi (- j + 1) = 1 / 2 ^ nat (j - 1)"
      proof (cases "j = 1")
        case True
        then show ?thesis by simp
      next
        case False
        then have "- j + 1 < 0" using j1 by simp
        moreover have "nat (- (- j + 1)) = nat (j - 1)" by simp
        ultimately show ?thesis by (simp add: power_int_def power_inverse field_simps)
      qed
      have "1 / 2 ^ nat j \<le> 1 / y" using hi ypos by (simp add: frac_le)
      moreover have "1 / y < 1 / 2 ^ nat (j - 1)" using lo by (simp add: frac_less2)
      ultimately show ?thesis using e p0 p1 x by simp
    qed
  qed
  then show "2 powi exponente x \<le> x" "x < 2 powi (exponente x + 1)" by simp_all
qed

lemma exponente_eqI:
  assumes "2 powi e \<le> x" "x < 2 powi (e + 1)"
  shows "exponente x = e"
proof -
  have pos: "0 < x" using assms(1) zero_less_power_int [of "2::real" e] by linarith
  note b = exponente_bounds [OF pos]
  have 1: "e < exponente x + 1"
  proof (rule ccontr)
    assume "\<not> e < exponente x + 1"
    then have "exponente x + 1 \<le> e" by simp
    then have "(2::real) powi (exponente x + 1) \<le> 2 powi e"
      by (intro power_int_increasing) simp_all
    with assms(1) b(2) show False by linarith
  qed
  have 2: "exponente x < e + 1"
  proof (rule ccontr)
    assume "\<not> exponente x < e + 1"
    then have "e + 1 \<le> exponente x" by simp
    then have "(2::real) powi (e + 1) \<le> 2 powi exponente x"
      by (intro power_int_increasing) simp_all
    with assms(2) b(1) show False by linarith
  qed
  show ?thesis using 1 2 by simp
qed

lemma fl_pos:
  assumes "0 < x"
  shows "fl x = of_int (round_half_even (x * 2 powi (52 - exponente x))) / 2 powi (52 - exponente x)"
  using assms by (simp add: fl_def Let_def)

lemma fl_eqI:
  assumes "2 powi e \<le> x" "x < 2 powi (e + 1)"
  shows "fl x = of_int (round_half_even (x * 2 powi (52 - e))) / 2 powi (52 - e)"
proof -
  have pos: "0 < x" using assms(1) zero_less_power_int [of "2::real" e] by linarith
  show ?thesis using fl_pos [OF pos] exponente_eqI [OF assms] by simp
qed

lemma exponente_less:
  assumes "0 < x" "x < 2 powi n"
  shows "exponente x < n"
proof (rule ccontr)
  assume "\<not> exponente x < n"
  then have "n \<le> exponente x" by simp
  then have "(2::real) powi n \<le> 2 powi exponente x"
    by (intro power_int_increasing) simp_all
  with assms(2) exponente_bounds(1) [OF assms(1)] show False by linarith
qed

lemma fl_between:
  assumes "0 \<le> x" "x < 2 ^ 53" "of_int a \<le> x" "x \<le> of_int b"
  shows "of_int a \<le> fl x" "fl x \<le> of_int b"
proof -
  have "of_int a \<le> fl x \<and> fl x \<le> of_int b"
  proof (cases "x = 0")
    case True
    then show ?thesis using assms by (simp add: fl_def)
  next
    case False
    then have pos: "0 < x" using assms(1) by simp
    define s where "s = 52 - exponente x"
    have "x < 2 powi 53" using assms(2) by simp
    then have "exponente x < 53" by (rule exponente_less [OF pos])
    then have s0: "0 \<le> s" by (simp add: s_def)
    define p where "p = (2::int) ^ nat s"
    have p: "(2::real) powi s = of_int p" using s0 by (simp add: p_def power_int_def)
    have ppos: "0 < p" by (simp add: p_def)
    have flx: "fl x = of_int (round_half_even (x * of_int p)) / of_int p"
      using fl_pos [OF pos] p by (simp add: s_def)
    have "of_int (a * p) \<le> x * of_int p" using assms(3) ppos by simp
    then have "a * p \<le> round_half_even (x * of_int p)" by (rule round_half_even_ge_int)
    then have "(of_int (a * p)::real) \<le> of_int (round_half_even (x * of_int p))"
      by (simp only: of_int_le_iff)
    then have lo: "of_int a \<le> fl x" using ppos by (simp add: flx field_simps)
    have "x * of_int p \<le> of_int (b * p)" using assms(4) ppos by simp
    then have "round_half_even (x * of_int p) \<le> b * p" by (rule round_half_even_le_int)
    then have "(of_int (round_half_even (x * of_int p))::real) \<le> of_int (b * p)"
      by (simp only: of_int_le_iff)
    then have hi: "fl x \<le> of_int b" using ppos by (simp add: flx field_simps)
    show ?thesis using lo hi by simp
  qed
  then show "of_int a \<le> fl x" "fl x \<le> of_int b" by simp_all
qed

lemma fl_of_int:
  assumes "0 \<le> n" "n < 2 ^ 53"
  shows "fl (of_int n) = of_int n"
proof -
  have "(of_int n :: real) < 2 ^ 53" using assms(2) by (metis of_int_less_iff of_int_numeral of_int_power)
  then have "of_int n \<le> fl (of_int n)" "fl (of_int n) \<le> of_int n"
    using assms(1) fl_between [of "of_int n" n n] by simp_all
  then show ?thesis by simp
qed

lemma fl_error:
  assumes "0 < x" "x < 2 powi n"
  shows "\<bar>fl x - x\<bar> \<le> 2 powi (n - 54)"
proof -
  define s where "s = 52 - exponente x"
  have ppos: "0 < (2::real) powi s" by simp
  have flx: "fl x = of_int (round_half_even (x * 2 powi s)) / 2 powi s"
    using fl_pos [OF assms(1)] by (simp add: s_def)
  have "of_int (round_half_even (x * 2 powi s)) \<le> x * 2 powi s + 1 / 2"
    "x * 2 powi s - 1 / 2 \<le> of_int (round_half_even (x * 2 powi s))"
    by (rule round_half_even_bounds)+
  then have half: "\<bar>of_int (round_half_even (x * 2 powi s)) - x * 2 powi s\<bar> \<le> 1 / 2"
    by linarith
  have "\<bar>of_int (round_half_even (x * 2 powi s)) - x * 2 powi s\<bar> / 2 powi s \<le> (1 / 2) / 2 powi s"
    by (rule divide_right_mono [OF half]) simp
  moreover have "\<bar>of_int (round_half_even (x * 2 powi s)) - x * 2 powi s\<bar> / 2 powi s = \<bar>fl x - x\<bar>"
  proof -
    have "fl x - x = (of_int (round_half_even (x * 2 powi s)) - x * 2 powi s) / 2 powi s"
      using ppos by (simp add: flx field_simps)
    then show ?thesis using ppos by (simp add: abs_divide)
  qed
  moreover have "(1 / 2) / (2::real) powi s = 2 powi (- 1 - s)"
    by (simp add: power_int_diff power_int_minus field_simps)
  ultimately have e1: "\<bar>fl x - x\<bar> \<le> 2 powi (- 1 - s)" by simp
  have "exponente x < n" using assms by (rule exponente_less)
  then have "- 1 - s \<le> n - 54" by (simp add: s_def)
  then have "(2::real) powi (- 1 - s) \<le> 2 powi (n - 54)"
    by (intro power_int_increasing) simp_all
  with e1 show ?thesis by linarith
qed

lemma fl_numeral:
  "(numeral n :: int) < 2 ^ 53 \<Longrightarrow> fl (numeral n) = numeral n"
  using fl_of_int [of "numeral n"] by simp

lemma uniform_valor: "fst (uniform a b g) = fl (a + fl (fl (b - a) * g 0))"
  by (simp add: uniform_def random_py_def)

lemma uniform_bounds:
  assumes "0 \<le> a" "a \<le> b" "b < 2 ^ 53" "0 \<le> g 0" "g 0 < 1"
  shows "of_int a \<le> fst (uniform (of_int a) (of_int b) g)"
    "fst (uniform (of_int a) (of_int b) g) \<le> of_int b"
proof -
  define u where "u = g 0"
  have u: "0 \<le> u" "u < 1" using assms by (simp_all add: u_def)
  have breal: "(of_int b :: real) < 2 ^ 53"
    using assms(3) by (metis of_int_less_iff of_int_numeral of_int_power)
  have d: "fl (of_int b - of_int a) = of_int (b - a)"
    using fl_of_int [of "b - a"] assms by simp
  have prod0: "0 \<le> of_int (b - a) * u" using assms u by simp
  have prod1: "of_int (b - a) * u \<le> of_int (b - a)"
    using assms u mult_left_mono [of u 1 "of_int (b - a)"] by simp
  have "of_int (b - a) * u < 2 ^ 53" using prod1 breal assms(1) by simp
  then have p: "of_int 0 \<le> fl (of_int (b - a) * u)" "fl (of_int (b - a) * u) \<le> of_int (b - a)"
    using prod0 prod1 fl_between [of "of_int (b - a) * u" 0 "b - a"] by simp_all
  define q where "q = fl (of_int (b - a) * u)"
  have q: "0 \<le> q" "q \<le> of_int b - of_int a" using p by (simp_all add: q_def)
  have s0: "0 \<le> of_int a + q" using assms(1) q by simp
  have s1: "of_int a + q < 2 ^ 53" using q breal by simp
  have "of_int a \<le> fl (of_int a + q)" "fl (of_int a + q) \<le> of_int b"
    using s0 s1 q fl_between [of "of_int a + q" a b] by simp_all
  then show "of_int a \<le> fst (uniform (of_int a) (of_int b) g)"
    "fst (uniform (of_int a) (of_int b) g) \<le> of_int b"
    by (simp_all add: uniform_valor d q_def u_def)
qed

lemma py_round_2:
  assumes "1 \<le> lo" "of_int lo \<le> x" "x \<le> of_int hi" "hi < 2 ^ n" "n \<le> 53"
  shows "\<exists>k. py_round x 2 = fl (of_int k / 100) \<and>
           \<bar>of_int k / 100 - x\<bar> \<le> 1 / 200 \<and>
           \<bar>py_round x 2 - of_int k / 100\<bar> \<le> 2 powi (int n - 54) \<and>
           of_int lo \<le> py_round x 2 \<and> py_round x 2 \<le> of_int hi"
proof -
  define k where "k = round_half_even (x * 100)"
  have "of_int (lo * 100) \<le> x * 100" using assms(2) by simp
  then have "lo * 100 \<le> k" unfolding k_def by (rule round_half_even_ge_int)
  then have "(of_int (lo * 100)::real) \<le> of_int k" by (simp only: of_int_le_iff)
  then have klo: "of_int lo \<le> (of_int k / 100 :: real)" by simp
  have "x * 100 \<le> of_int (hi * 100)" using assms(3) by simp
  then have "k \<le> hi * 100" unfolding k_def by (rule round_half_even_le_int)
  then have "(of_int k::real) \<le> of_int (hi * 100)" by (simp only: of_int_le_iff)
  then have khi: "(of_int k / 100 :: real) \<le> of_int hi" by simp
  have hin: "(of_int hi :: real) < 2 ^ n"
    using assms(4) by (metis of_int_less_iff of_int_numeral of_int_power)
  have "(2::real) ^ n \<le> 2 ^ 53" using assms(5) by (intro power_increasing) simp_all
  then have h53: "(of_int k / 100 :: real) < 2 ^ 53" using khi hin by linarith
  have "(1::real) \<le> of_int lo" using assms(1) by simp
  then have kpos: "0 < (of_int k / 100 :: real)" using klo by linarith
  have near: "\<bar>of_int k / 100 - x\<bar> \<le> 1 / 200"
    using round_half_even_bounds [of "x * 100"] unfolding k_def by linarith
  have "(of_int k / 100 :: real) < 2 ^ n" using khi hin by linarith
  then have "(of_int k / 100 :: real) < 2 powi int n" by simp
  then have err: "\<bar>fl (of_int k / 100) - of_int k / 100\<bar> \<le> 2 powi (int n - 54)"
    by (rule fl_error [OF kpos])
  have "of_int lo \<le> fl (of_int k / 100)" "fl (of_int k / 100) \<le> of_int hi"
    using kpos h53 klo khi fl_between [of "of_int k / 100" lo hi] by simp_all
  then show ?thesis using near err by (auto simp: py_round_def k_def intro!: exI [of _ k])
qed

section \<open>The branches of \<open>ajustar_intensidad\<close>\<close>

lemma py_between_int: "py_between lo (PyInt i) hi = Inr (lo \<le> i \<and> i \<le> hi)"
  by (simp add: py_between_def int_le_py_def py_le_int_def split: bool.splits)

lemma py_between_bool: "py_between 0 (PyBool b) 100 = Inr True"
  by (simp add: py_between_def int_le_py_def py_le_int_def split: bool.splits)

lemma ajustar_intensidad_apagado:
  "\<not> estado a \<Longrightarrow> ajustar_intensidad a v = Inr (a, [Advertencia (id_dispositivo a)])"
  by (simp add: ajustar_intensidad_def)

lemma ajustar_intensidad_PyInt:
  "estado a \<Longrightarrow> ajustar_intensidad a (PyInt i) =
     (if 0 \<le> i \<and> i \<le> 100
      then Inr (a\<lparr>intensidad := PyInt i\<rparr>, [InfoIntensidad (id_dispositivo a) (PyInt i)])
      else Inr (a, [ErrorRango]))"
  by (auto simp: ajustar_intensidad_def py_between_int)

lemma ajustar_intensidad_PyBool:
  "estado a \<Longrightarrow> ajustar_intensidad a (PyBool b) =
     Inr (a\<lparr>intensidad := PyBool b\<rparr>, [InfoIntensidad (id_dispositivo a) (PyBool b)])"
  by (simp add: ajustar_intensidad_def py_between_bool)



lemma ajustar_intensidad_regla:
  "ajustar_intensidad a (PyInt (if alarma then 80 else 20)) =
     Inr (if estado a
          then (a\<lparr>intensidad := PyInt (if alarma then 80 else 20)\<rparr>,
                [InfoIntensidad (id_dispositivo a) (PyInt (if alarma then 80 else 20))])
          else (a, [Advertencia (id_dispositivo a)]))"
  by (simp add: ajustar_intensidad_apagado ajustar_intensidad_PyInt)

section \<open>The three loops of a cycle\<close>

lemma mostrar_datos_fst: "fst (mostrar_datos d) = d"
  by (cases d) (simp_all add: DispositivoIoT_mostrar_datos_def SensorTemperatura_mostrar_datos_def
      SensorHumedad_mostrar_datos_def ActuadorLuz_mostrar_datos_def)

lemma fase_reporte_eq:
  "fase_reporte ds h = (h, concat (map (\<lambda>r. snd (mostrar_datos (h r))) ds))"
proof (induction ds)
  case Nil
  show ?case by simp
next
  case (Cons r rs)
  then show ?case by (simp add: split_beta mostrar_datos_fst)
qed

text \<open>A reading never touches a light, and never changes the class of an object.\<close>

lemma fase_lectura_Luz_iff:
  "fst (fase_lectura ds h g) r = Luz a \<longleftrightarrow> h r = Luz a"
proof (induction ds arbitrary: h g)
  case Nil
  show ?case by simp
next
  case (Cons x xs)
  show ?case
  proof (cases "h x")
    case (Temp s)
    have "(h(x := Temp (fst (snd (leer_temperatura s g))))) r = Luz a \<longleftrightarrow> h r = Luz a"
      using Temp by auto
    then show ?thesis using Temp Cons.IH by (simp add: split_beta)
  next
    case (Hum s)
    have "(h(x := Hum (fst (snd (leer_humedad s g))))) r = Luz a \<longleftrightarrow> h r = Luz a"
      using Hum by auto
    then show ?thesis using Hum Cons.IH by (simp add: split_beta)
  next
    case (Generico d)
    then show ?thesis using Cons.IH by simp
  next
    case (Luz b)
    then show ?thesis using Cons.IH by simp
  qed
qed

lemma fase_lectura_Luz:
  "h r = Luz a \<Longrightarrow> fst (fase_lectura ds h g) r = Luz a"
  by (simp add: fase_lectura_Luz_iff)

lemma fase_lectura_Temp:
  "(\<exists>s. fst (fase_lectura ds h g) r = Temp s) \<longleftrightarrow> (\<exists>s. h r = Temp s)"
proof (induction ds arbitrary: h g)
  case Nil
  show ?case by simp
next
  case (Cons x xs)
  show ?case
  proof (cases "h x")
    case (Temp s)
    have "(\<exists>s'. (h(x := Temp (fst (snd (leer_temperatura s g))))) r = Temp s') \<longleftrightarrow>
          (\<exists>s'. h r = Temp s')"
      using Temp by auto
    then show ?thesis using Temp Cons.IH by (simp add: split_beta)
  next
    case (Hum s)
    have "(\<exists>s'. (h(x := Hum (fst (snd (leer_humedad s g))))) r = Temp s') \<longleftrightarrow>
          (\<exists>s'. h r = Temp s')"
      using Hum by auto
    then show ?thesis using Hum Cons.IH by (simp add: split_beta)
  next
    case (Generico d)
    then show ?thesis using Cons.IH by simp
  next
    case (Luz b)
    then show ?thesis using Cons.IH by simp
  qed
qed

lemma alarma_calor_iff:
  "alarma_calor (temperaturas ds h) umbral \<longleftrightarrow>
     (\<exists>r \<in> set ds. \<exists>s. h r = Temp s \<and> umbral < temperatura s)"
proof (induction ds)
  case Nil
  show ?case by (simp add: alarma_calor_def temperaturas_def map_filter_simps)
next
  case (Cons x xs)
  then show ?case
    by (cases "h x") (auto simp: alarma_calor_def temperaturas_def map_filter_simps)
qed

text \<open>
  The second loop never raises. A light listed twice is adjusted twice, to the same
  value, and prints its line twice.
\<close>

lemma fase_actuacion_eq:
  "fase_actuacion ds alarma h =
     Inr (\<lambda>r. if r \<in> set ds
               then (case h r of
                       Luz a \<Rightarrow> Luz (if estado a
                                      then a\<lparr>intensidad := PyInt (if alarma then 80 else 20)\<rparr>
                                      else a)
                     | d \<Rightarrow> d)
               else h r,
          concat (map (\<lambda>r. case h r of
                              Luz a \<Rightarrow> [if estado a
                                         then InfoIntensidad (id_dispositivo a)
                                                (PyInt (if alarma then 80 else 20))
                                         else Advertencia (id_dispositivo a)]
                            | d \<Rightarrow> []) ds))"
proof (induction ds arbitrary: h)
  case Nil
  show ?case by simp
next
  case (Cons x xs)
  show ?case
  proof (cases "h x")
    case (Luz a)
    show ?thesis
      apply (simp add: Luz ajustar_intensidad_regla Cons.IH)
      apply (auto simp: fun_eq_iff Luz split: dispositivo.splits
          intro!: arg_cong [where f = concat] map_cong)
      done
  next
    case (Generico d)
    then show ?thesis by (auto simp: Cons.IH fun_eq_iff)
  next
    case (Temp s)
    then show ?thesis by (auto simp: Cons.IH fun_eq_iff)
  next
    case (Hum s)
    then show ?thesis by (auto simp: Cons.IH fun_eq_iff)
  qed
qed

lemma avisos_cong:
  assumes "\<And>a. h1 r = Luz a \<longleftrightarrow> h r = Luz a"
  shows "(case h1 r of Luz a \<Rightarrow> f a | _ \<Rightarrow> z) = (case h r of Luz a \<Rightarrow> f a | _ \<Rightarrow> z)"
proof (cases "\<exists>a. h r = Luz a")
  case True
  then obtain a where "h r = Luz a" by blast
  moreover from this have "h1 r = Luz a" using assms by simp
  ultimately show ?thesis by simp
next
  case False
  moreover from this have "\<not> (\<exists>a. h1 r = Luz a)" using assms by simp
  ultimately show ?thesis by (cases "h r"; cases "h1 r") simp_all
qed

lemma ciclo_monitoreo_eq:
  fixes ds umbral ciclo h g
  defines "h1 \<equiv> fst (fase_lectura ds h g)"
  defines "alarma \<equiv> alarma_calor (temperaturas ds h1) umbral"
  defines "h2 \<equiv> (\<lambda>r. if r \<in> set ds
               then (case h1 r of
                       Luz a \<Rightarrow> Luz (if estado a
                                      then a\<lparr>intensidad := PyInt (if alarma then 80 else 20)\<rparr>
                                      else a)
                     | d \<Rightarrow> d)
               else h1 r)"
  shows "ciclo_monitoreo ds umbral ciclo h g =
     Inr (h2, snd (fase_lectura ds h g),
          CabeceraCiclo ciclo #
          concat (map (\<lambda>r. case h r of
                              Luz a \<Rightarrow> [if estado a
                                         then InfoIntensidad (id_dispositivo a)
                                                (PyInt (if alarma then 80 else 20))
                                         else Advertencia (id_dispositivo a)]
                            | d \<Rightarrow> []) ds) @
          concat (map (\<lambda>r. snd (mostrar_datos (h2 r))) ds))"
proof -
  have "(\<lambda>r. case h1 r of
                Luz a \<Rightarrow> [if estado a
                           then InfoIntensidad (id_dispositivo a) (PyInt (if alarma then 80 else 20))
                           else Advertencia (id_dispositivo a)]
              | d \<Rightarrow> []) =
        (\<lambda>r. case h r of
                Luz a \<Rightarrow> [if estado a
                           then InfoIntensidad (id_dispositivo a) (PyInt (if alarma then 80 else 20))
                           else Advertencia (id_dispositivo a)]
              | d \<Rightarrow> [])"
    unfolding h1_def by (rule ext, rule avisos_cong) (rule fase_lectura_Luz_iff)
  then show ?thesis
    unfolding ciclo_monitoreo_def h2_def alarma_def h1_def
    by (simp add: split_beta fase_actuacion_eq fase_reporte_eq)
qed

text \<open>The loop over the cycles raises only when \<open>sleep\<close> does.\<close>

lemma bucle_ciclos_retorna:
  "sleep pausa_seg = None \<Longrightarrow>
   \<exists>h' g' out. bucle_ciclos sleep cs ds pausa_seg umbral h g = Inr (h', g', out)"
proof (induction cs arbitrary: h g)
  case Nil
  show ?case by simp
next
  case (Cons c cs)
  obtain h1 g1 out1 where c1: "ciclo_monitoreo ds umbral c h g = Inr (h1, g1, out1)"
    using ciclo_monitoreo_eq by blast
  obtain h2 g2 out2 where
    c2: "bucle_ciclos sleep cs ds pausa_seg umbral h1 g1 = Inr (h2, g2, out2)"
    using Cons by blast
  show ?case using Cons.prems c1 c2 by simp
qed

lemma simulacion_monitoreo_retorna:
  "sleep pausa_seg = None \<Longrightarrow>
   \<exists>h' g' out. simulacion_monitoreo sleep ds ciclos pausa_seg umbral h g = Inr (h', g', out)"
proof -
  assume "sleep pausa_seg = None"
  then obtain h' g' out where
    "bucle_ciclos sleep [1..ciclos] ds pausa_seg umbral h g = Inr (h', g', out)"
    using bucle_ciclos_retorna by blast
  then show ?thesis by (simp add: simulacion_monitoreo_def)
qed

lemma leer_temperatura_valor:
  "estado s \<Longrightarrow> fst (leer_temperatura s g) = py_round (fst (uniform 20 40 g)) 2"
  by (simp add: leer_temperatura_def split_beta)

lemma leer_humedad_valor:
  "estado s \<Longrightarrow> fst (leer_humedad s g) = py_round (fst (uniform 30 90 g)) 2"
  by (simp add: leer_humedad_def split_beta)

lemmas fixture_defs =
  main_heap_def main_dispositivos_def SensorTemperatura_init_def SensorHumedad_init_def
  ActuadorLuz_init_def DispositivoIoT_init_def DispositivoIoT.defs SensorTemperatura.defs
  SensorHumedad.defs ActuadorLuz.defs encender_def apagar_def

lemmas eval_defs =
  leer_temperatura_def leer_humedad_def uniform_def random_py_def py_round_def
  round_half_even_def fl_numeral ciclo_monitoreo_def alarma_calor_def temperaturas_def map_filter_simps
  ajustar_intensidad_def py_between_def int_le_py_def py_le_int_def
  SensorTemperatura_mostrar_datos_def SensorHumedad_mostrar_datos_def
  ActuadorLuz_mostrar_datos_def DispositivoIoT_mostrar_datos_def

section \<open>Construction and power control\<close>

text \<open>
  Claim C6. Right after construction every device is switched off, a temperature sensor
  stores the temperature 0.0, a humidity sensor stores the humidity 0.0 and a light has
  the intensity 0; the identifier is the one given to the constructor.
\<close>

theorem estado_inicial:
  "estado (DispositivoIoT_init ident) = False \<and>
   estado (SensorTemperatura_init ident) = False \<and>
   temperatura (SensorTemperatura_init ident) = 0 \<and>
   estado (SensorHumedad_init ident) = False \<and>
   humedad (SensorHumedad_init ident) = 0 \<and>
   estado (ActuadorLuz_init ident) = False \<and>
   intensidad (ActuadorLuz_init ident) = PyInt 0 \<and>
   id_dispositivo (DispositivoIoT_init ident) = ident \<and>
   id_dispositivo (SensorTemperatura_init ident) = ident \<and>
   id_dispositivo (SensorHumedad_init ident) = ident \<and>
   id_dispositivo (ActuadorLuz_init ident) = ident"
  by (simp add: DispositivoIoT_init_def SensorTemperatura_init_def SensorHumedad_init_def
      ActuadorLuz_init_def DispositivoIoT.defs SensorTemperatura.defs SensorHumedad.defs
      ActuadorLuz.defs)

text \<open>
  Claim C7. \<open>encender\<close> and \<open>apagar\<close> set the power state to on and to off whatever the
  state before, have no error result, and change no other field: the identifier and the
  fields of the subclass (\<open>more\<close>, that is a sensor's stored measurement and a light's
  intensity) are the same after the call.
\<close>

theorem encender_apagar_marco:
  fixes d :: "'a DispositivoIoT_scheme"
    and st :: SensorTemperatura and sh :: SensorHumedad and a :: ActuadorLuz
  shows
  "encender d = (d\<lparr>estado := True\<rparr>, [InfoEncendido (id_dispositivo d)]) \<and>
   apagar d = (d\<lparr>estado := False\<rparr>, [InfoApagado (id_dispositivo d)]) \<and>
   estado (fst (encender d)) = True \<and>
   estado (fst (apagar d)) = False \<and>
   id_dispositivo (fst (encender d)) = id_dispositivo d \<and>
   id_dispositivo (fst (apagar d)) = id_dispositivo d \<and>
   DispositivoIoT.more (fst (encender d)) = DispositivoIoT.more d \<and>
   DispositivoIoT.more (fst (apagar d)) = DispositivoIoT.more d \<and>
   temperatura (fst (encender st)) = temperatura st \<and>
   temperatura (fst (apagar st)) = temperatura st \<and>
   humedad (fst (encender sh)) = humedad sh \<and>
   humedad (fst (apagar sh)) = humedad sh \<and>
   intensidad (fst (encender a)) = intensidad a \<and>
   intensidad (fst (apagar a)) = intensidad a"
  by (simp add: encender_def apagar_def)

section \<open>Readings\<close>

text \<open>
  Claim C3. A temperature or humidity sensor that is switched off returns 0.0 from a
  reading and stores 0.0, whatever it stored before; it draws no random number.
\<close>

theorem lectura_apagado:
  "(\<not> estado st \<longrightarrow> leer_temperatura st g = (0, st\<lparr>temperatura := 0\<rparr>, g)) \<and>
   (\<not> estado sh \<longrightarrow> leer_humedad sh g = (0, sh\<lparr>humedad := 0\<rparr>, g))"
  by (simp add: leer_temperatura_def leer_humedad_def)

theorem lectura_apagado_witness:
  "\<not> estado ((SensorTemperatura_init ''TempSensor_01'')\<lparr>temperatura := 2575 / 100\<rparr>) \<and>
   \<not> estado ((SensorHumedad_init ''HumSensor_01'')\<lparr>humedad := 61\<rparr>) \<and>
   fst (leer_temperatura ((SensorTemperatura_init ''TempSensor_01'')\<lparr>temperatura := 2575 / 100\<rparr>)
          (\<lambda>n. 3 / 4)) = 0 \<and>
   temperatura (fst (snd (leer_temperatura
          ((SensorTemperatura_init ''TempSensor_01'')\<lparr>temperatura := 2575 / 100\<rparr>)
          (\<lambda>n. 3 / 4)))) = 0 \<and>
   fst (leer_humedad ((SensorHumedad_init ''HumSensor_01'')\<lparr>humedad := 61\<rparr>) (\<lambda>n. 3 / 4)) = 0 \<and>
   humedad (fst (snd (leer_humedad ((SensorHumedad_init ''HumSensor_01'')\<lparr>humedad := 61\<rparr>)
          (\<lambda>n. 3 / 4)))) = 0"
  using lectura_apagado [of "(SensorTemperatura_init ''TempSensor_01'')\<lparr>temperatura := 2575 / 100\<rparr>"
      "\<lambda>n. 3 / 4" "(SensorHumedad_init ''HumSensor_01'')\<lparr>humedad := 61\<rparr>"]
  by (simp add: SensorTemperatura_init_def SensorHumedad_init_def DispositivoIoT_init_def
      DispositivoIoT.defs SensorTemperatura.defs SensorHumedad.defs)

text \<open>
  Claim C4. A sensor that is switched on returns a reading in its range (20 to 40 for a
  temperature, 30 to 90 for a humidity), rounded to two decimal places, and stores the
  value it returns. Rounded to two decimal places is what \<open>round(x, 2)\<close> gives: the
  binary64 number nearest to \<open>k / 100\<close>, where \<open>k\<close> hundredths is the decimal nearest to
  the value \<open>x\<close> drawn. The draw of the random source is in \<open>[0, 1)\<close>.
\<close>

theorem lectura_encendido:
  assumes "0 \<le> g 0" and "g 0 < 1"
  shows "(estado st \<longrightarrow>
            (\<exists>t st' g' k. leer_temperatura st g = (t, st', g') \<and>
               20 \<le> t \<and> t \<le> 40 \<and> temperatura st' = t \<and>
               t = fl (of_int k / 100) \<and>
               \<bar>of_int k / 100 - fst (uniform 20 40 g)\<bar> \<le> 1 / 200 \<and>
               \<bar>t - of_int k / 100\<bar> \<le> 1 / 2 ^ 48)) \<and>
         (estado sh \<longrightarrow>
            (\<exists>u sh' g' k. leer_humedad sh g = (u, sh', g') \<and>
               30 \<le> u \<and> u \<le> 90 \<and> humedad sh' = u \<and>
               u = fl (of_int k / 100) \<and>
               \<bar>of_int k / 100 - fst (uniform 30 90 g)\<bar> \<le> 1 / 200 \<and>
               \<bar>u - of_int k / 100\<bar> \<le> 1 / 2 ^ 47))"
proof (intro conjI impI)
  assume on: "estado st"
  have x: "of_int 20 \<le> fst (uniform 20 40 g)" "fst (uniform 20 40 g) \<le> of_int 40"
    using uniform_bounds [of 20 40 g] assms by simp_all
  obtain k where k: "py_round (fst (uniform 20 40 g)) 2 = fl (of_int k / 100)"
    "\<bar>of_int k / 100 - fst (uniform 20 40 g)\<bar> \<le> 1 / 200"
    "\<bar>py_round (fst (uniform 20 40 g)) 2 - of_int k / 100\<bar> \<le> 2 powi (int 6 - 54)"
    "of_int 20 \<le> py_round (fst (uniform 20 40 g)) 2"
    "py_round (fst (uniform 20 40 g)) 2 \<le> of_int 40"
    using py_round_2 [OF _ x, of 6] by auto
  have p: "(2::real) powi (int 6 - 54) = 1 / 2 ^ 48" by (simp add: power_int_minus_divide)
  define t where "t = py_round (fst (uniform 20 40 g)) 2"
  have l: "leer_temperatura st g = (t, st\<lparr>temperatura := t\<rparr>, snd (uniform 20 40 g))"
    using on by (simp add: leer_temperatura_def split_beta t_def)
  have "leer_temperatura st g = (t, st\<lparr>temperatura := t\<rparr>, snd (uniform 20 40 g)) \<and>
           20 \<le> t \<and> t \<le> 40 \<and> temperatura (st\<lparr>temperatura := t\<rparr>) = t \<and>
           t = fl (of_int k / 100) \<and>
           \<bar>of_int k / 100 - fst (uniform 20 40 g)\<bar> \<le> 1 / 200 \<and>
           \<bar>t - of_int k / 100\<bar> \<le> 1 / 2 ^ 48"
    using l k p unfolding t_def [symmetric] by simp
  then show "\<exists>t st' g' k. leer_temperatura st g = (t, st', g') \<and>
           20 \<le> t \<and> t \<le> 40 \<and> temperatura st' = t \<and>
           t = fl (of_int k / 100) \<and>
           \<bar>of_int k / 100 - fst (uniform 20 40 g)\<bar> \<le> 1 / 200 \<and>
           \<bar>t - of_int k / 100\<bar> \<le> 1 / 2 ^ 48"
    by blast
next
  assume on: "estado sh"
  have x: "of_int 30 \<le> fst (uniform 30 90 g)" "fst (uniform 30 90 g) \<le> of_int 90"
    using uniform_bounds [of 30 90 g] assms by simp_all
  obtain k where k: "py_round (fst (uniform 30 90 g)) 2 = fl (of_int k / 100)"
    "\<bar>of_int k / 100 - fst (uniform 30 90 g)\<bar> \<le> 1 / 200"
    "\<bar>py_round (fst (uniform 30 90 g)) 2 - of_int k / 100\<bar> \<le> 2 powi (int 7 - 54)"
    "of_int 30 \<le> py_round (fst (uniform 30 90 g)) 2"
    "py_round (fst (uniform 30 90 g)) 2 \<le> of_int 90"
    using py_round_2 [OF _ x, of 7] by auto
  have p: "(2::real) powi (int 7 - 54) = 1 / 2 ^ 47" by (simp add: power_int_minus_divide)
  define u where "u = py_round (fst (uniform 30 90 g)) 2"
  have l: "leer_humedad sh g = (u, sh\<lparr>humedad := u\<rparr>, snd (uniform 30 90 g))"
    using on by (simp add: leer_humedad_def split_beta u_def)
  have "leer_humedad sh g = (u, sh\<lparr>humedad := u\<rparr>, snd (uniform 30 90 g)) \<and>
           30 \<le> u \<and> u \<le> 90 \<and> humedad (sh\<lparr>humedad := u\<rparr>) = u \<and>
           u = fl (of_int k / 100) \<and>
           \<bar>of_int k / 100 - fst (uniform 30 90 g)\<bar> \<le> 1 / 200 \<and>
           \<bar>u - of_int k / 100\<bar> \<le> 1 / 2 ^ 47"
    using l k p unfolding u_def [symmetric] by simp
  then show "\<exists>u sh' g' k. leer_humedad sh g = (u, sh', g') \<and>
           30 \<le> u \<and> u \<le> 90 \<and> humedad sh' = u \<and>
           u = fl (of_int k / 100) \<and>
           \<bar>of_int k / 100 - fst (uniform 30 90 g)\<bar> \<le> 1 / 200 \<and>
           \<bar>u - of_int k / 100\<bar> \<le> 1 / 2 ^ 47"
    by blast
qed

text \<open>
  The witness is at the draw \<open>4510355026811551 / 2 ** 53\<close>. The exact sum
  \<open>20 + 20 * u\<close> lies below 30.015, but the binary64 sum is a tie that rounds up to
  30.015 and a little more, so the reading is the binary64 number 30.02, not 30.01; the
  humidity read at the same draw is 60.04.
\<close>

theorem lectura_encendido_witness:
  "(0::real) \<le> 4510355026811551 / 2 ^ 53 \<and> (4510355026811551 / 2 ^ 53 :: real) < 1 \<and>
   estado (fst (encender (SensorTemperatura_init ''TempSensor_01''))) \<and>
   estado (fst (encender (SensorHumedad_init ''HumSensor_01''))) \<and>
   fst (leer_temperatura (fst (encender (SensorTemperatura_init ''TempSensor_01'')))
          (\<lambda>n. 4510355026811551 / 2 ^ 53)) = 8449878800853893 / 2 ^ 48 \<and>
   fl (3002 / 100) = 8449878800853893 / 2 ^ 48 \<and>
   fst (leer_humedad (fst (encender (SensorHumedad_init ''HumSensor_01'')))
          (\<lambda>n. 4510355026811551 / 2 ^ 53)) = 8449878800853893 / 2 ^ 47 \<and>
   fl (6004 / 100) = 8449878800853893 / 2 ^ 47"
proof -
  have on: "estado (fst (encender (SensorTemperatura_init ''TempSensor_01'')))"
    "estado (fst (encender (SensorHumedad_init ''HumSensor_01'')))"
    by (simp_all add: fixture_defs)
  have d1: "fl (40 - 20) = 20" "fl (90 - 30) = 60"
    by (simp_all add: fl_numeral)
  have t2: "fl (20 * (4510355026811551 / 2 ^ 53)) = 5637943783514439 / 2 ^ 49"
    by (subst fl_eqI [where e = 3]) (simp_all add: round_half_even_def)
  have t3: "fl (20 + 5637943783514439 / 2 ^ 49) = 2112117856492585 / 2 ^ 46"
    by (subst fl_eqI [where e = 4]) (simp_all add: round_half_even_def)
  have t4: "round_half_even (2112117856492585 / 2 ^ 46 * 10 ^ 2) = 3002"
    by (simp add: round_half_even_def)
  have t5: "fl (3002 / 100) = 8449878800853893 / 2 ^ 48"
    by (subst fl_eqI [where e = 4]) (simp_all add: round_half_even_def)
  have h2: "fl (60 * (4510355026811551 / 2 ^ 53)) = 4228457837635829 / 2 ^ 47"
    by (subst fl_eqI [where e = 4]) (simp_all add: round_half_even_def)
  have h3: "fl (30 + 4228457837635829 / 2 ^ 47) = 8450582488295669 / 2 ^ 47"
    by (subst fl_eqI [where e = 5]) (simp_all add: round_half_even_def)
  have h4: "round_half_even (8450582488295669 / 2 ^ 47 * 10 ^ 2) = 6004"
    by (simp add: round_half_even_def)
  have h5: "fl (6004 / 100) = 8449878800853893 / 2 ^ 47"
    by (subst fl_eqI [where e = 5]) (simp_all add: round_half_even_def)
  have t: "fst (leer_temperatura (fst (encender (SensorTemperatura_init ''TempSensor_01'')))
          (\<lambda>n. 4510355026811551 / 2 ^ 53)) = 8449878800853893 / 2 ^ 48"
    unfolding leer_temperatura_valor [OF on(1)] uniform_valor py_round_def d1 t2 t3 t4
    using t5 by simp
  have h: "fst (leer_humedad (fst (encender (SensorHumedad_init ''HumSensor_01'')))
          (\<lambda>n. 4510355026811551 / 2 ^ 53)) = 8449878800853893 / 2 ^ 47"
    unfolding leer_humedad_valor [OF on(2)] uniform_valor py_round_def d1 h2 h3 h4
    using h5 by simp
  show ?thesis
    using lectura_encendido [of "\<lambda>n. 4510355026811551 / 2 ^ 53"
      "fst (encender (SensorTemperatura_init ''TempSensor_01''))"
      "fst (encender (SensorHumedad_init ''HumSensor_01''))"] on t h t5 h5
    by simp
qed

text \<open>
  A second reading near a tie, at the draw \<open>2255928113343671 / 2 ** 52\<close>: the humidity
  read is the binary64 number 60.05, where the exact sum \<open>30 + 60 * u\<close> lies above
  60.055.
\<close>

lemma leer_humedad_60_05:
  "fst (leer_humedad (fst (encender (SensorHumedad_init ''HumSensor_01'')))
          (\<lambda>n. 2255928113343671 / 2 ^ 52)) = 4225643087868723 / 2 ^ 46 \<and>
   fl (6005 / 100) = 4225643087868723 / 2 ^ 46 \<and>
   (6005 + 1 / 2) / 100 < (30 + 60 * (2255928113343671 / 2 ^ 52) :: real)"
proof -
  have on: "estado (fst (encender (SensorHumedad_init ''HumSensor_01'')))"
    by (simp add: fixture_defs)
  have d1: "fl (90 - 30) = 60"
    by (simp add: fl_numeral)
  have h2: "fl (60 * (2255928113343671 / 2 ^ 52)) = 4229865212519383 / 2 ^ 47"
    by (subst fl_eqI [where e = 4]) (simp_all add: round_half_even_def)
  have h3: "fl (30 + 4229865212519383 / 2 ^ 47) = 8451989863179223 / 2 ^ 47"
    by (subst fl_eqI [where e = 5]) (simp_all add: round_half_even_def)
  have h4: "round_half_even (8451989863179223 / 2 ^ 47 * 10 ^ 2) = 6005"
    by (simp add: round_half_even_def)
  have h5: "fl (6005 / 100) = 4225643087868723 / 2 ^ 46"
    by (subst fl_eqI [where e = 5]) (simp_all add: round_half_even_def)
  have h: "fst (leer_humedad (fst (encender (SensorHumedad_init ''HumSensor_01'')))
          (\<lambda>n. 2255928113343671 / 2 ^ 52)) = 4225643087868723 / 2 ^ 46"
    unfolding leer_humedad_valor [OF on] uniform_valor py_round_def d1 h2 h3 h4
    using h5 by simp
  show ?thesis using h h5 by simp
qed

section \<open>Adjusting a light\<close>






text \<open>
  Claim C9. The type check accepts a Python boolean: on a light that is switched on,
  \<open>ajustar_intensidad(True)\<close> and \<open>ajustar_intensidad(False)\<close> print the line of a
  successful adjustment, not the type error. The object stored is the boolean itself,
  which is equal to 1 respectively 0 under Python's \<open>==\<close>.
\<close>

theorem ajustar_intensidad_booleano:
  assumes "estado a"
  shows "(\<exists>a' out. ajustar_intensidad a (PyBool True) = Inr (a', out) \<and>
            intensidad a' = PyBool True \<and> py_eq (intensidad a') (PyInt 1) \<and>
            out = [InfoIntensidad (id_dispositivo a) (PyBool True)]) \<and>
         (\<exists>a' out. ajustar_intensidad a (PyBool False) = Inr (a', out) \<and>
            intensidad a' = PyBool False \<and> py_eq (intensidad a') (PyInt 0) \<and>
            out = [InfoIntensidad (id_dispositivo a) (PyBool False)])"
  using assms by (simp add: ajustar_intensidad_PyBool py_eq_def)

theorem ajustar_intensidad_booleano_witness:
  "estado (fst (encender (ActuadorLuz_init ''Luz_Sala''))) \<and>
   ajustar_intensidad (fst (encender (ActuadorLuz_init ''Luz_Sala''))) (PyBool True) =
     Inr (\<lparr>id_dispositivo = ''Luz_Sala'', estado = True, intensidad = PyBool True\<rparr>,
          [InfoIntensidad ''Luz_Sala'' (PyBool True)]) \<and>
   py_eq (PyBool True) (PyInt 1)"
  using ajustar_intensidad_booleano [of "fst (encender (ActuadorLuz_init ''Luz_Sala''))"]
  by (simp add: fixture_defs eval_defs py_eq_def)

section \<open>Reports\<close>

text \<open>
  Claim C8. \<open>mostrar_datos\<close> leaves the device as it was, whatever its class and power
  state, so after any number of calls the device is unchanged and one more call prints
  the same lines as the first.
\<close>

theorem mostrar_datos_idempotente:
  "fst (mostrar_datos d) = d \<and>
   ((\<lambda>x. fst (mostrar_datos x)) ^^ n) d = d \<and>
   snd (mostrar_datos (((\<lambda>x. fst (mostrar_datos x)) ^^ n) d)) = snd (mostrar_datos d)"
proof -
  have same: "((\<lambda>x. fst (mostrar_datos x)) ^^ n) d = d"
    by (induction n) (simp_all add: mostrar_datos_fst)
  show ?thesis unfolding same by (simp add: mostrar_datos_fst)
qed

section \<open>The decision rule of a cycle\<close>

text \<open>
  Claim C1. In every cycle, from any store, list of devices and random source: the cycle
  returns; with the temperatures stored after the readings of that cycle, the alarm is
  raised exactly when a temperature sensor of the list stores a temperature above the
  threshold (humidity sensors and lights do not count); every light of the list ends the
  cycle as \<open>ajustar_intensidad\<close> with 80 (alarm) or 20 (no alarm) leaves it; and the
  lines printed are the header, one line per light of the list from that adjustment,
  then the reports.
\<close>

theorem regla_de_decision:
  "\<exists>h' g' out.
     ciclo_monitoreo ds umbral ciclo h g = Inr (h', g', out) \<and>
     (let h1 = fst (fase_lectura ds h g);
          alarma = (\<exists>r \<in> set ds. \<exists>s. h1 r = Temp s \<and> umbral < temperatura s);
          valor = PyInt (if alarma then 80 else 20)
      in alarma_calor (temperaturas ds h1) umbral = alarma \<and>
         (\<forall>r \<in> set ds. \<forall>a. h r = Luz a \<longrightarrow>
            (\<exists>a' aviso. ajustar_intensidad a valor = Inr (a', aviso) \<and> h' r = Luz a')) \<and>
         out = CabeceraCiclo ciclo #
               concat (map (\<lambda>r. case h r of
                                   Luz a \<Rightarrow> [if estado a
                                              then InfoIntensidad (id_dispositivo a) valor
                                              else Advertencia (id_dispositivo a)]
                                 | d \<Rightarrow> []) ds) @
               concat (map (\<lambda>r. snd (mostrar_datos (h' r))) ds))"
  unfolding ciclo_monitoreo_eq Let_def
  by (auto simp: alarma_calor_iff ajustar_intensidad_regla fase_lectura_Luz)

theorem regla_de_decision_witness:
  "(3::nat) \<in> set main_dispositivos \<and>
   main_heap 3 = Luz (fst (encender (ActuadorLuz_init ''Luz_Sala''))) \<and>
   (\<exists>h' g' out.
      ciclo_monitoreo main_dispositivos 30 1 main_heap (\<lambda>n. 3 / 4) = Inr (h', g', out) \<and>
      h' 0 = Temp \<lparr>id_dispositivo = ''TempSensor_01'', estado = True, temperatura = 35\<rparr> \<and>
      h' 3 = Luz \<lparr>id_dispositivo = ''Luz_Sala'', estado = True, intensidad = PyInt 80\<rparr>)"
  using regla_de_decision [of main_dispositivos 30 1 main_heap "\<lambda>n. 3 / 4"]
  by (simp add: fixture_defs eval_defs)

text \<open>
  Claim C10. In a cycle over a list with no temperature sensor the alarm is not raised,
  whatever the humidity sensors store or read and whether they are on or off, so every
  light of the list ends the cycle as \<open>ajustar_intensidad(20)\<close> leaves it.
\<close>

theorem sin_sensor_de_temperatura:
  assumes "\<forall>r \<in> set ds. \<forall>s. h r \<noteq> Temp s"
  shows "\<not> alarma_calor (temperaturas ds (fst (fase_lectura ds h g))) umbral \<and>
         (\<exists>h' g' out.
            ciclo_monitoreo ds umbral ciclo h g = Inr (h', g', out) \<and>
            (\<forall>r \<in> set ds. \<forall>a. h r = Luz a \<longrightarrow>
               (\<exists>a' aviso. ajustar_intensidad a (PyInt 20) = Inr (a', aviso) \<and> h' r = Luz a')))"
proof -
  have no: "\<not> alarma_calor (temperaturas ds (fst (fase_lectura ds h g))) umbral"
    using assms fase_lectura_Temp [of ds h g] unfolding alarma_calor_iff by blast
  have regla: "ajustar_intensidad a (PyInt 20) =
      Inr (if estado a
           then (a\<lparr>intensidad := PyInt 20\<rparr>, [InfoIntensidad (id_dispositivo a) (PyInt 20)])
           else (a, [Advertencia (id_dispositivo a)]))" for a
    using ajustar_intensidad_regla [of a False] by simp
  show ?thesis
    unfolding ciclo_monitoreo_eq using no
    by (auto simp: regla fase_lectura_Luz)
qed

theorem sin_sensor_de_temperatura_witness:
  "(\<forall>s. main_heap 2 \<noteq> Temp s) \<and> (\<forall>s. main_heap 3 \<noteq> Temp s) \<and>
   (\<forall>s. main_heap 4 \<noteq> Temp s) \<and>
   (4::nat) \<in> set [2, 3, 4] \<and>
   main_heap 4 = Luz (fst (encender (ActuadorLuz_init ''Luz_Cocina''))) \<and>
   (\<exists>h' g' out.
      ciclo_monitoreo [2, 3, 4] 30 1 main_heap (\<lambda>n. 3 / 4) = Inr (h', g', out) \<and>
      h' 2 = Hum \<lparr>id_dispositivo = ''HumSensor_01'', estado = True, humedad = 75\<rparr> \<and>
      h' 4 = Luz \<lparr>id_dispositivo = ''Luz_Cocina'', estado = True, intensidad = PyInt 20\<rparr>)"
  using sin_sensor_de_temperatura [of "[2, 3, 4]" main_heap "\<lambda>n. 3 / 4" 30 1]
  by (simp add: fixture_defs eval_defs)

end
